theory Spec2Isabelle
  imports Complex_Main
begin

section \<open>The provider search endpoint of docs/back_end.py\<close>

text \<open>
  The file holds one Flask view, \<^verbatim>\<open>search_providers\<close>, which parses five query
  parameters, assembles two SQL statements from string fragments and runs them on an
  SQLite connection. The embedding has three layers:
  \<^item> the values stored in the \<^verbatim>\<open>providers\<close> table and bound to the statements;
  \<^item> the text of the two statements, kept as the sequence of clauses in the order in
    which the Python concatenates them, and the way SQLite reads such a sequence;
  \<^item> the view itself, with the calls it makes on the connection recorded as a trace.
  Python floats and SQLite REALs are modelled by \<^typ>\<open>real\<close>: rounding, infinities and NaN
  are outside the model.
\<close>

subsection \<open>Stored values and rows\<close>

datatype sqlval = SNull | SInt int | SReal real | SText string

text \<open>One row of the table \<^verbatim>\<open>providers\<close>, under its alias \<^verbatim>\<open>p\<close> in the statements.\<close>

record provider =
  p_NPI :: sqlval
  p_Name :: sqlval
  p_Address :: sqlval
  p_City :: sqlval
  p_State :: sqlval
  p_PostalCode :: sqlval
  p_latitude :: sqlval
  p_longitude :: sqlval
  p_taxonomy :: sqlval

text \<open>
  Errors of class \<^verbatim>\<open>sqlite3.Error\<close>, and the Python exceptions that can reach the
  handlers of the view.
\<close>

datatype db_error =
    Cannot_open
  | Syntax_error string
  | No_such_column string
  | Having_non_aggregate
  | Binding_missing string
  | Udf_exception
  | Malformed_json
  | Datatype_mismatch

datatype py_error = Sqlite_error db_error | Type_error | Overflow_error

text \<open>A row handed back by a cursor: of the count, of its subquery, of the result page.\<close>

datatype sql_row = Count_row int | Npi_row sqlval real | Full_row provider real

fun first_column :: "sql_row \<Rightarrow> sqlval" where
  "first_column (Count_row n) = SInt n"
| "first_column (Npi_row k d) = k"
| "first_column (Full_row p d) = p_NPI p"

definition and_then :: "'e + 'a \<Rightarrow> ('a \<Rightarrow> 'e + 'b) \<Rightarrow> 'e + 'b" where
  "and_then x f = (case x of Inl e \<Rightarrow> Inl e | Inr a \<Rightarrow> f a)"

fun collect :: "('e + 'a) list \<Rightarrow> 'e + 'a list" where
  "collect [] = Inr []"
| "collect (x # xs) = and_then x (\<lambda>a. and_then (collect xs) (\<lambda>as. Inr (a # as)))"

subsection \<open>The text of the two statements\<close>

text \<open>
  A statement is the list of its clauses in textual order. A value can enter a clause as
  a named placeholder (\<^verbatim>\<open>:radius\<close>) or written out in the text; the view only ever
  uses the first form.
\<close>

datatype operand = Named string | Literal sqlval

datatype distance_expr = Haversine operand operand

datatype select_list = Provider_columns distance_expr | NPI_only distance_expr

datatype where_clause = Latitude_present | Join_value_eq operand

datatype having_clause = Distance_lt operand

datatype sql_token =
    SELECT select_list
  | FROM_providers
  | LEFT_JOIN_json_each
  | WHERE "where_clause list"
  | GROUP_BY_NPI
  | HAVING "having_clause list"
  | ORDER_BY_distance
  | LIMIT operand
  | OFFSET operand

datatype sql_query = Select "sql_token list" | Select_count_from "sql_token list"

record search_request =
  user_lat :: real
  user_lon :: real
  radius :: real
  taxonomy :: string
  offset :: int

definition RESULTS_PER_PAGE :: int where
  "RESULTS_PER_PAGE = 20"

text \<open>
  \<^verbatim>\<open>(3958.8 * acos(cos(radians(:user_lat)) * cos(radians(p.latitude)) *
     cos(radians(p.longitude) - radians(:user_lon))
     + sin(radians(:user_lat)) * sin(radians(p.latitude))))\<close>
\<close>

definition haversine_formula :: distance_expr where
  "haversine_formula = Haversine (Named ''user_lat'') (Named ''user_lon'')"

definition query_params :: "search_request \<Rightarrow> (string \<rightharpoonup> sqlval)" where
  "query_params r =
     [''user_lat'' \<mapsto> SReal (user_lat r),
      ''user_lon'' \<mapsto> SReal (user_lon r),
      ''radius'' \<mapsto> SReal (radius r),
      ''taxonomy'' \<mapsto> SText (taxonomy r),
      ''limit'' \<mapsto> SInt RESULTS_PER_PAGE,
      ''offset'' \<mapsto> SInt (offset r)]"

text \<open>
  \<^verbatim>\<open>base_query\<close> is the select list and \<^verbatim>\<open>FROM providers p\<close>; when no taxonomy is
  given the view appends \<^verbatim>\<open>" GROUP BY p.NPI"\<close> to it (line 106), before the
  statement around it is assembled.
\<close>

definition base_query :: "search_request \<Rightarrow> sql_token list" where
  "base_query r =
     [SELECT (Provider_columns haversine_formula), FROM_providers]
     @ (if taxonomy r \<noteq> [] then [] else [GROUP_BY_NPI])"

text \<open>\<^verbatim>\<open>LEFT JOIN json_each(p.taxonomy) AS t_join ON 1=1\<close>\<close>

definition taxonomy_join :: sql_token where
  "taxonomy_join = LEFT_JOIN_json_each"

text \<open>
  \<^verbatim>\<open>p.latitude IS NOT NULL AND p.latitude != ''\<close>, and
  \<^verbatim>\<open>t_join.value = :taxonomy\<close> when a taxonomy is given; the list is joined with
  \<^verbatim>\<open>AND\<close>.
\<close>

definition where_clauses :: "search_request \<Rightarrow> where_clause list" where
  "where_clauses r =
     Latitude_present # (if taxonomy r \<noteq> [] then [Join_value_eq (Named ''taxonomy'')] else [])"

text \<open>\<^verbatim>\<open>distance < :radius\<close>\<close>

definition having_clauses :: "having_clause list" where
  "having_clauses = [Distance_lt (Named ''radius'')]"

definition count_query :: "search_request \<Rightarrow> sql_query" where
  "count_query r =
     Select_count_from
       ([SELECT (NPI_only haversine_formula), FROM_providers]
        @ (if taxonomy r \<noteq> [] then [taxonomy_join] else [])
        @ [WHERE (where_clauses r)]
        @ (if taxonomy r \<noteq> [] then [] else [GROUP_BY_NPI])
        @ [HAVING having_clauses])"

definition results_query :: "search_request \<Rightarrow> sql_query" where
  "results_query r =
     Select
       (base_query r
        @ (if taxonomy r \<noteq> [] then [taxonomy_join] else [])
        @ [WHERE (where_clauses r),
           HAVING having_clauses,
           ORDER_BY_distance,
           LIMIT (Named ''limit''),
           OFFSET (Named ''offset'')])"

text \<open>The places of a statement where a value enters.\<close>

fun distance_operands :: "distance_expr \<Rightarrow> operand list" where
  "distance_operands (Haversine a b) = [a, b]"

fun select_operands :: "select_list \<Rightarrow> operand list" where
  "select_operands (Provider_columns d) = distance_operands d"
| "select_operands (NPI_only d) = distance_operands d"

fun where_operands :: "where_clause \<Rightarrow> operand list" where
  "where_operands Latitude_present = []"
| "where_operands (Join_value_eq x) = [x]"

fun having_operands :: "having_clause \<Rightarrow> operand list" where
  "having_operands (Distance_lt x) = [x]"

fun token_operands :: "sql_token \<Rightarrow> operand list" where
  "token_operands (SELECT l) = select_operands l"
| "token_operands (WHERE ws) = concat (map where_operands ws)"
| "token_operands (HAVING hs) = concat (map having_operands hs)"
| "token_operands (LIMIT x) = [x]"
| "token_operands (OFFSET x) = [x]"
| "token_operands FROM_providers = []"
| "token_operands LEFT_JOIN_json_each = []"
| "token_operands GROUP_BY_NPI = []"
| "token_operands ORDER_BY_distance = []"

fun query_tokens :: "sql_query \<Rightarrow> sql_token list" where
  "query_tokens (Select ts) = ts"
| "query_tokens (Select_count_from ts) = ts"

definition query_operands :: "sql_query \<Rightarrow> operand list" where
  "query_operands q = concat (map token_operands (query_tokens q))"

subsection \<open>How SQLite reads a statement\<close>

text \<open>
  The grammar of a select statement fixes the order of its clauses:
  \<^verbatim>\<open>SELECT .. [FROM .. [JOIN ..]] [WHERE ..] [GROUP BY ..] [HAVING ..] [ORDER BY ..]
  [LIMIT .. [OFFSET ..]]\<close>. The parser stops at the first keyword that cannot follow
  what it has read and reports \<^verbatim>\<open>near "KEYWORD": syntax error\<close>.
\<close>

fun clause_rank :: "sql_token \<Rightarrow> nat" where
  "clause_rank (SELECT l) = 0"
| "clause_rank FROM_providers = 1"
| "clause_rank LEFT_JOIN_json_each = 2"
| "clause_rank (WHERE ws) = 3"
| "clause_rank GROUP_BY_NPI = 4"
| "clause_rank (HAVING hs) = 5"
| "clause_rank ORDER_BY_distance = 6"
| "clause_rank (LIMIT x) = 7"
| "clause_rank (OFFSET x) = 8"

fun keyword :: "sql_token \<Rightarrow> string" where
  "keyword (SELECT l) = ''SELECT''"
| "keyword FROM_providers = ''FROM''"
| "keyword LEFT_JOIN_json_each = ''LEFT''"
| "keyword (WHERE ws) = ''WHERE''"
| "keyword GROUP_BY_NPI = ''GROUP''"
| "keyword (HAVING hs) = ''HAVING''"
| "keyword ORDER_BY_distance = ''ORDER''"
| "keyword (LIMIT x) = ''LIMIT''"
| "keyword (OFFSET x) = ''OFFSET''"

text \<open>
  \<open>may_follow prev t\<close>: clause \<open>t\<close> is accepted after the clause \<open>prev\<close> read last
  (\<open>None\<close> at the start of the statement). A join needs the table it joins to, and
  \<^verbatim>\<open>OFFSET\<close> is only a suffix of \<^verbatim>\<open>LIMIT\<close>.
\<close>

fun may_follow :: "sql_token option \<Rightarrow> sql_token \<Rightarrow> bool" where
  "may_follow None t = (clause_rank t = 0)"
| "may_follow (Some prev) LEFT_JOIN_json_each = (prev = FROM_providers)"
| "may_follow (Some prev) (OFFSET x) = (clause_rank prev = 7)"
| "may_follow (Some prev) t = (clause_rank prev < clause_rank t)"

fun misplaced :: "sql_token option \<Rightarrow> sql_token list \<Rightarrow> sql_token option" where
  "misplaced prev [] = None"
| "misplaced prev (t # ts) = (if may_follow prev t then misplaced (Some t) ts else Some t)"

fun select_of :: "sql_token list \<Rightarrow> select_list option" where
  "select_of [] = None"
| "select_of (SELECT l # ts) = Some l"
| "select_of (t # ts) = select_of ts"

fun where_of :: "sql_token list \<Rightarrow> where_clause list" where
  "where_of [] = []"
| "where_of (WHERE ws # ts) = ws"
| "where_of (t # ts) = where_of ts"

fun having_of :: "sql_token list \<Rightarrow> having_clause list option" where
  "having_of [] = None"
| "having_of (HAVING hs # ts) = Some hs"
| "having_of (t # ts) = having_of ts"

fun limit_of :: "sql_token list \<Rightarrow> operand option" where
  "limit_of [] = None"
| "limit_of (LIMIT x # ts) = Some x"
| "limit_of (t # ts) = limit_of ts"

fun offset_of :: "sql_token list \<Rightarrow> operand option" where
  "offset_of [] = None"
| "offset_of (OFFSET x # ts) = Some x"
| "offset_of (t # ts) = offset_of ts"

fun mentions_join_value :: "where_clause \<Rightarrow> bool" where
  "mentions_join_value Latitude_present = False"
| "mentions_join_value (Join_value_eq x) = True"

text \<open>
  After parsing, names are resolved. The select list names columns of \<^verbatim>\<open>p\<close>, so the
  table must be there. A \<^verbatim>\<open>HAVING\<close> clause is accepted on an aggregate query only:
  none of the select lists here calls an aggregate function, so the query is an
  aggregate exactly when it has a \<^verbatim>\<open>GROUP BY\<close>; otherwise SQLite refuses it with
  \<^verbatim>\<open>HAVING clause on a non-aggregate query\<close> (before version 3.39 with
  \<^verbatim>\<open>a GROUP BY clause is required before HAVING\<close>). This check comes before the
  names of the \<^verbatim>\<open>WHERE\<close> clause are resolved.
\<close>

definition check_select :: "sql_token list \<Rightarrow> db_error option" where
  "check_select ts =
     (case misplaced None ts of
        Some t \<Rightarrow> Some (Syntax_error (keyword t))
      | None \<Rightarrow>
          if FROM_providers \<notin> set ts then Some (No_such_column ''p.NPI'')
          else if having_of ts \<noteq> None \<and> GROUP_BY_NPI \<notin> set ts then Some Having_non_aggregate
          else if list_ex mentions_join_value (where_of ts) \<and> LEFT_JOIN_json_each \<notin> set ts
            then Some (No_such_column ''t_join.value'')
          else None)"

text \<open>
  An empty text is no statement at all and yields no rows; inside the parentheses of
  \<^verbatim>\<open>SELECT COUNT(*) FROM ( .. )\<close> it is a syntax error.
\<close>

fun prepare :: "sql_query \<Rightarrow> db_error option" where
  "prepare (Select ts) = (if ts = [] then None else check_select ts)"
| "prepare (Select_count_from ts) =
     (if ts = [] then Some (Syntax_error '')'') else check_select ts)"

subsection \<open>Binding\<close>

text \<open>
  The \<^verbatim>\<open>sqlite3\<close> module looks up, in the dictionary it is given, each named
  placeholder of the prepared statement and no other key: a missing name is a
  \<^verbatim>\<open>ProgrammingError\<close>, a Python integer outside 64 bits an \<^verbatim>\<open>OverflowError\<close>.
\<close>

fun bind_operand :: "(string \<rightharpoonup> sqlval) \<Rightarrow> operand \<Rightarrow> py_error option" where
  "bind_operand params (Literal v) = None"
| "bind_operand params (Named n) =
     (case params n of
        None \<Rightarrow> Some (Sqlite_error (Binding_missing n))
      | Some (SInt i) \<Rightarrow>
          if - (2 ^ 63) \<le> i \<and> i < 2 ^ 63 then None else Some Overflow_error
      | Some v \<Rightarrow> None)"

fun bind_parameters :: "(string \<rightharpoonup> sqlval) \<Rightarrow> operand list \<Rightarrow> py_error option" where
  "bind_parameters params [] = None"
| "bind_parameters params (x # xs) =
     (case bind_operand params x of Some e \<Rightarrow> Some e | None \<Rightarrow> bind_parameters params xs)"

text \<open>The value an operand has while the statement runs (SQLite reads an unbound
  placeholder as NULL).\<close>

fun bound :: "(string \<rightharpoonup> sqlval) \<Rightarrow> operand \<Rightarrow> sqlval" where
  "bound params (Literal v) = v"
| "bound params (Named n) = (case params n of None \<Rightarrow> SNull | Some v \<Rightarrow> v)"

subsection \<open>The functions registered on the connection\<close>

text \<open>
  \<^verbatim>\<open>get_db_conn\<close> registers Python's \<^verbatim>\<open>math.radians\<close>, \<^verbatim>\<open>math.cos\<close>,
  \<^verbatim>\<open>math.sin\<close> and \<^verbatim>\<open>math.acos\<close> as SQL functions. SQLite hands a NULL to them as
  \<^verbatim>\<open>None\<close> and a text as \<^verbatim>\<open>str\<close>, on which they raise \<^verbatim>\<open>TypeError\<close>; the
  statement then fails with \<^verbatim>\<open>user-defined function raised exception\<close>.
  \<^verbatim>\<open>math.acos\<close> also raises outside \<open>[-1, 1]\<close>. The cosine and the sine are only
  ever applied to results of \<^verbatim>\<open>radians\<close>, which are floats. Over the reals the
  argument of \<^verbatim>\<open>acos\<close> never leaves \<open>[-1, 1]\<close>; in doubles it can round to just
  above 1 for a provider stored at the query point, and \<^verbatim>\<open>math.acos\<close> then raises
  where the definition below gives the distance 0.
\<close>

fun py_float_arg :: "sqlval \<Rightarrow> db_error + real" where
  "py_float_arg (SReal x) = Inr x"
| "py_float_arg (SInt i) = Inr (real_of_int i)"
| "py_float_arg SNull = Inl Udf_exception"
| "py_float_arg (SText s) = Inl Udf_exception"

definition radians :: "sqlval \<Rightarrow> db_error + real" where
  "radians v = and_then (py_float_arg v) (\<lambda>x. Inr (x * pi / 180))"

definition acos :: "real \<Rightarrow> db_error + real" where
  "acos x = (if - 1 \<le> x \<and> x \<le> 1 then Inr (arccos x) else Inl Udf_exception)"

fun distance :: "(string \<rightharpoonup> sqlval) \<Rightarrow> distance_expr \<Rightarrow> provider \<Rightarrow> db_error + real" where
  "distance params (Haversine a b) p =
     and_then (radians (bound params a)) (\<lambda>ulat.
     and_then (radians (p_latitude p)) (\<lambda>plat.
     and_then (radians (p_longitude p)) (\<lambda>plon.
     and_then (radians (bound params b)) (\<lambda>ulon.
     and_then (acos (cos ulat * cos plat * cos (plon - ulon) + sin ulat * sin plat)) (\<lambda>c.
     Inr (3958.8 * c))))))"

subsection \<open>Running a prepared statement\<close>

text \<open>Comparison of stored values: \<^verbatim>\<open>IS\<close> (also the equality of grouping) and \<^verbatim>\<open>=\<close>.\<close>

fun sql_is :: "sqlval \<Rightarrow> sqlval \<Rightarrow> bool" where
  "sql_is SNull SNull = True"
| "sql_is (SInt i) (SInt j) = (i = j)"
| "sql_is (SInt i) (SReal y) = (real_of_int i = y)"
| "sql_is (SReal x) (SInt j) = (x = real_of_int j)"
| "sql_is (SReal x) (SReal y) = (x = y)"
| "sql_is (SText s) (SText t) = (s = t)"
| "sql_is a b = False"

definition sql_eq :: "sqlval \<Rightarrow> sqlval \<Rightarrow> bool" where
  "sql_eq a b = (a \<noteq> SNull \<and> b \<noteq> SNull \<and> sql_is a b)"

text \<open>\<^verbatim>\<open>p.latitude IS NOT NULL AND p.latitude != ''\<close>: only the latitude is looked at.\<close>

definition has_latitude :: "provider \<Rightarrow> bool" where
  "has_latitude p = (p_latitude p \<noteq> SNull \<and> \<not> sql_is (p_latitude p) (SText []))"

fun where_holds :: "(string \<rightharpoonup> sqlval) \<Rightarrow> where_clause \<Rightarrow> provider \<times> sqlval \<Rightarrow> bool" where
  "where_holds params Latitude_present (p, v) = has_latitude p"
| "where_holds params (Join_value_eq x) (p, v) = sql_eq v (bound params x)"

text \<open>\<^verbatim>\<open>distance < x\<close>, the distance being a REAL: a number sorts before any text.\<close>

fun having_holds :: "(string \<rightharpoonup> sqlval) \<Rightarrow> having_clause \<Rightarrow> real \<Rightarrow> bool" where
  "having_holds params (Distance_lt x) d =
     (case bound params x of
        SNull \<Rightarrow> False
      | SInt i \<Rightarrow> d < real_of_int i
      | SReal y \<Rightarrow> d < y
      | SText s \<Rightarrow> True)"

text \<open>
  The rows of \<^verbatim>\<open>providers p LEFT JOIN json_each(p.taxonomy) AS t_join ON 1=1\<close>: one
  per element of the stored list with the element as \<^verbatim>\<open>t_join.value\<close>, and one with a
  NULL there for a provider whose list has no element. \<^verbatim>\<open>json_each\<close> is a table-valued
  function of SQLite; it is a parameter here: the values of the elements, or an error for
  text that is not JSON.
\<close>

definition join_rows ::
  "(sqlval \<Rightarrow> db_error + sqlval list) \<Rightarrow> provider \<Rightarrow> db_error + (provider \<times> sqlval) list" where
  "join_rows json_each p =
     and_then (json_each (p_taxonomy p))
       (\<lambda>vs. Inr (if vs = [] then [(p, SNull)] else map (Pair p) vs))"

text \<open>
  \<^verbatim>\<open>GROUP BY p.NPI\<close> with no aggregate in the select list returns one row per
  distinct NPI; SQLite takes the other columns from a row of the group it chooses, here
  the first one.
\<close>

fun first_of_groups :: "sqlval list \<Rightarrow> (provider \<times> sqlval) list \<Rightarrow> (provider \<times> sqlval) list" where
  "first_of_groups seen [] = []"
| "first_of_groups seen (row # rows) =
     (if list_ex (sql_is (p_NPI (fst row))) seen then first_of_groups seen rows
      else row # first_of_groups (p_NPI (fst row) # seen) rows)"

text \<open>
  \<^verbatim>\<open>LIMIT\<close> and \<^verbatim>\<open>OFFSET\<close> want integers (a REAL without fraction is taken, anything
  else is \<^verbatim>\<open>datatype mismatch\<close>; numerals in text form, which SQLite would convert, are
  never bound by the view and count as a mismatch here). A negative limit is no limit, a
  negative offset is none.
\<close>

fun must_be_int :: "sqlval \<Rightarrow> db_error + int" where
  "must_be_int (SInt i) = Inr i"
| "must_be_int (SReal x) = (if real_of_int \<lfloor>x\<rfloor> = x then Inr \<lfloor>x\<rfloor> else Inl Datatype_mismatch)"
| "must_be_int SNull = Inl Datatype_mismatch"
| "must_be_int (SText s) = Inl Datatype_mismatch"

definition limit_offset ::
  "(string \<rightharpoonup> sqlval) \<Rightarrow> sql_token list \<Rightarrow> 'a list \<Rightarrow> db_error + 'a list" where
  "limit_offset params ts rows =
     (case limit_of ts of
        None \<Rightarrow> Inr rows
      | Some l \<Rightarrow>
          and_then (must_be_int (bound params l)) (\<lambda>n.
          and_then (case offset_of ts of None \<Rightarrow> Inr 0 | Some x \<Rightarrow> must_be_int (bound params x)) (\<lambda>k.
          Inr (if n < 0 then drop (nat k) rows else take (nat n) (drop (nat k) rows)))))"

fun project :: "select_list \<Rightarrow> provider \<times> real \<Rightarrow> sql_row" where
  "project (Provider_columns e) (p, d) = Full_row p d"
| "project (NPI_only e) (p, d) = Npi_row (p_NPI p) d"

fun distance_of :: "select_list \<Rightarrow> distance_expr" where
  "distance_of (Provider_columns e) = e"
| "distance_of (NPI_only e) = e"

text \<open>
  A prepared select statement runs in SQL's order: the rows of the table that pass the
  conditions on \<^verbatim>\<open>p\<close> alone, the join, the rest of \<^verbatim>\<open>WHERE\<close>, the grouping, the
  distance of every row that is left, \<^verbatim>\<open>HAVING\<close>, the sort, the page. An error on any
  row fails the statement.
\<close>

definition from_rows ::
  "(sqlval \<Rightarrow> db_error + sqlval list) \<Rightarrow> sql_token list \<Rightarrow> provider list
     \<Rightarrow> db_error + (provider \<times> sqlval) list" where
  "from_rows json_each ts table =
     (let located = filter (\<lambda>p. if Latitude_present \<in> set (where_of ts) then has_latitude p else True) table
      in if LEFT_JOIN_json_each \<in> set ts
         then and_then (collect (map (join_rows json_each) located)) (\<lambda>rs. Inr (concat rs))
         else Inr (map (\<lambda>p. (p, SNull)) located))"

definition where_rows ::
  "(string \<rightharpoonup> sqlval) \<Rightarrow> sql_token list \<Rightarrow> (provider \<times> sqlval) list \<Rightarrow> (provider \<times> sqlval) list" where
  "where_rows params ts rows =
     filter (\<lambda>row. list_all (\<lambda>w. where_holds params w row) (where_of ts)) rows"

definition group_rows :: "sql_token list \<Rightarrow> (provider \<times> sqlval) list \<Rightarrow> (provider \<times> sqlval) list" where
  "group_rows ts rows = (if GROUP_BY_NPI \<in> set ts then first_of_groups [] rows else rows)"

definition with_distance ::
  "(string \<rightharpoonup> sqlval) \<Rightarrow> distance_expr \<Rightarrow> (provider \<times> sqlval) list
     \<Rightarrow> db_error + (provider \<times> real) list" where
  "with_distance params e rows =
     collect (map (\<lambda>row. and_then (distance params e (fst row)) (\<lambda>d. Inr (fst row, d))) rows)"

definition having_rows ::
  "(string \<rightharpoonup> sqlval) \<Rightarrow> sql_token list \<Rightarrow> (provider \<times> real) list \<Rightarrow> (provider \<times> real) list" where
  "having_rows params ts rows =
     (case having_of ts of
        None \<Rightarrow> rows
      | Some hs \<Rightarrow> filter (\<lambda>row. list_all (\<lambda>h. having_holds params h (snd row)) hs) rows)"

definition order_rows :: "sql_token list \<Rightarrow> (provider \<times> real) list \<Rightarrow> (provider \<times> real) list" where
  "order_rows ts rows = (if ORDER_BY_distance \<in> set ts then sort_key snd rows else rows)"

definition run_select ::
  "(sqlval \<Rightarrow> db_error + sqlval list) \<Rightarrow> (string \<rightharpoonup> sqlval) \<Rightarrow> provider list \<Rightarrow> sql_token list
     \<Rightarrow> db_error + sql_row list" where
  "run_select json_each params table ts =
     (case select_of ts of
        None \<Rightarrow> Inr []
      | Some sel \<Rightarrow>
          and_then (from_rows json_each ts table) (\<lambda>joined.
          and_then (with_distance params (distance_of sel) (group_rows ts (where_rows params ts joined)))
            (\<lambda>measured.
          and_then (limit_offset params ts (order_rows ts (having_rows params ts measured)))
            (\<lambda>page.
          Inr (map (project sel) page)))))"

text \<open>\<^verbatim>\<open>conn.execute(sql, params)\<close>: prepare, bind, run.\<close>

definition execute ::
  "(sqlval \<Rightarrow> db_error + sqlval list) \<Rightarrow> provider list \<Rightarrow> sql_query \<Rightarrow> (string \<rightharpoonup> sqlval)
     \<Rightarrow> py_error + sql_row list" where
  "execute json_each table q params =
     (case prepare q of
        Some e \<Rightarrow> Inl (Sqlite_error e)
      | None \<Rightarrow>
          (case bind_parameters params (query_operands q) of
             Some e \<Rightarrow> Inl e
           | None \<Rightarrow>
               (case run_select json_each params table (query_tokens q) of
                  Inl e \<Rightarrow> Inl (Sqlite_error e)
                | Inr rows \<Rightarrow>
                    (case q of
                       Select ts \<Rightarrow> Inr rows
                     | Select_count_from ts \<Rightarrow> Inr [Count_row (int (length rows))]))))"

subsection \<open>The view\<close>

text \<open>
  What the view runs in: Python's \<^verbatim>\<open>float\<close> and \<^verbatim>\<open>int\<close> on a string (\<open>None\<close>
  where they raise \<^verbatim>\<open>ValueError\<close>), SQLite's \<^verbatim>\<open>json_each\<close>, and the table behind
  \<^verbatim>\<open>DB_PATH\<close> (\<open>None\<close> where \<^verbatim>\<open>sqlite3.connect\<close> raises).
\<close>

record environment =
  py_float :: "string \<Rightarrow> real option"
  py_int :: "string \<Rightarrow> int option"
  sqlite_json_each :: "sqlval \<Rightarrow> db_error + sqlval list"
  stored :: "provider list option"

datatype db_event = Acquire | Execute sql_query | Release

text \<open>
  The JSON bodies: \<^verbatim>\<open>{error}\<close>, \<^verbatim>\<open>{error, details}\<close> and
  \<^verbatim>\<open>{results, total, offset, limit}\<close>. An exception that no handler of the view
  catches leaves it for Flask.
\<close>

datatype body =
    Error_body string
  | Error_details string py_error
  | Page "sql_row list" sqlval int int

datatype response = Response nat body | Unhandled db_error

text \<open>
  Section 1 of the view. \<^verbatim>\<open>request.args.get('lat')\<close> is \<^verbatim>\<open>None\<close> for a missing
  parameter and \<^verbatim>\<open>float(None)\<close> raises \<^verbatim>\<open>TypeError\<close>; \<^verbatim>\<open>radius\<close> and
  \<^verbatim>\<open>offset\<close> have the defaults 25 and 0, \<^verbatim>\<open>taxonomy\<close> the empty string.
\<close>

definition float_arg :: "environment \<Rightarrow> string option \<Rightarrow> real option \<Rightarrow> real option" where
  "float_arg env v dflt = (case v of None \<Rightarrow> dflt | Some s \<Rightarrow> py_float env s)"

definition int_arg :: "environment \<Rightarrow> string option \<Rightarrow> int option \<Rightarrow> int option" where
  "int_arg env v dflt = (case v of None \<Rightarrow> dflt | Some s \<Rightarrow> py_int env s)"

definition parse_args :: "environment \<Rightarrow> (string \<rightharpoonup> string) \<Rightarrow> search_request option" where
  "parse_args env args =
     Option.bind (float_arg env (args ''lat'') None) (\<lambda>la.
     Option.bind (float_arg env (args ''lon'') None) (\<lambda>lo.
     Option.bind (float_arg env (args ''radius'') (Some 25)) (\<lambda>ra.
     Option.bind (int_arg env (args ''offset'') (Some 0)) (\<lambda>off.
     Some \<lparr>user_lat = la, user_lon = lo, radius = ra,
           taxonomy = (case args ''taxonomy'' of None \<Rightarrow> [] | Some t \<Rightarrow> t),
           offset = off\<rparr>))))"

text \<open>\<^verbatim>\<open>count_cursor.fetchone()[0]\<close>: subscripting \<^verbatim>\<open>None\<close> raises \<^verbatim>\<open>TypeError\<close>.\<close>

definition fetchone_0 :: "sql_row list \<Rightarrow> py_error + sqlval" where
  "fetchone_0 rows = (case rows of [] \<Rightarrow> Inl Type_error | row # rest \<Rightarrow> Inr (first_column row))"

text \<open>The body of the \<^verbatim>\<open>try\<close> block, with the statements it executed.\<close>

definition run_queries ::
  "environment \<Rightarrow> provider list \<Rightarrow> search_request \<Rightarrow> (py_error + body) \<times> db_event list" where
  "run_queries env table r =
     (case execute (sqlite_json_each env) table (count_query r) (query_params r) of
        Inl e \<Rightarrow> (Inl e, [Execute (count_query r)])
      | Inr count_rows \<Rightarrow>
          (case fetchone_0 count_rows of
             Inl e \<Rightarrow> (Inl e, [Execute (count_query r)])
           | Inr total_results \<Rightarrow>
               (case execute (sqlite_json_each env) table (results_query r) (query_params r) of
                  Inl e \<Rightarrow> (Inl e, [Execute (count_query r), Execute (results_query r)])
                | Inr results \<Rightarrow>
                    (Inr (Page results total_results (offset r) RESULTS_PER_PAGE),
                     [Execute (count_query r), Execute (results_query r)]))))"

text \<open>
  The two \<^verbatim>\<open>except\<close> clauses: \<^verbatim>\<open>sqlite3.Error\<close> first, then \<^verbatim>\<open>Exception\<close>.
  Each also prints the error to the server's output, which is not part of the response.
\<close>

fun error_response :: "py_error \<Rightarrow> response" where
  "error_response (Sqlite_error d) =
     Response 500 (Error_details ''A database error occurred.'' (Sqlite_error d))"
| "error_response e =
     Response 500 (Error_details ''An unexpected server error occurred.'' e)"

definition invalid_parameters :: string where
  "invalid_parameters =
     ''Invalid query parameters. 'lat', 'lon', and 'radius' must be numbers.''"

text \<open>
  The view returns its response and the trace of what it did on the connection. The
  connection is opened after the parameters are parsed, outside the \<^verbatim>\<open>try\<close> block,
  and closed in its \<^verbatim>\<open>finally\<close> clause.
\<close>

definition search_providers ::
  "environment \<Rightarrow> (string \<rightharpoonup> string) \<Rightarrow> response \<times> db_event list" where
  "search_providers env args =
     (case parse_args env args of
        None \<Rightarrow> (Response 400 (Error_body invalid_parameters), [])
      | Some r \<Rightarrow>
          (case stored env of
             None \<Rightarrow> (Unhandled Cannot_open, [])
           | Some table \<Rightarrow>
               (case run_queries env table r of
                  (Inl e, events) \<Rightarrow> (error_response e, Acquire # events @ [Release])
                | (Inr b, events) \<Rightarrow> (Response 200 b, Acquire # events @ [Release]))))"

subsection \<open>A runtime and a table for concrete requests\<close>

text \<open>
  Plain decimal numerals, on which Python's \<^verbatim>\<open>int\<close> and \<^verbatim>\<open>float\<close> agree with the
  functions below; \<^verbatim>\<open>int("abc")\<close> and \<^verbatim>\<open>float("abc")\<close> raise \<^verbatim>\<open>ValueError\<close>.
\<close>

definition digit_of :: "char \<Rightarrow> nat option" where
  "digit_of c = (if c \<in> set ''0123456789'' then Some (of_char c - 48) else None)"

fun nat_of_digits :: "nat \<Rightarrow> string \<Rightarrow> nat option" where
  "nat_of_digits acc [] = Some acc"
| "nat_of_digits acc (c # cs) =
     (case digit_of c of None \<Rightarrow> None | Some d \<Rightarrow> nat_of_digits (10 * acc + d) cs)"

definition decimal_int :: "string \<Rightarrow> int option" where
  "decimal_int s =
     (case s of
        [] \<Rightarrow> None
      | c # cs \<Rightarrow>
          if c = CHR ''-''
          then (if cs = [] then None else map_option (\<lambda>n. - int n) (nat_of_digits 0 cs))
          else map_option int (nat_of_digits 0 s))"

definition decimal_float :: "string \<Rightarrow> real option" where
  "decimal_float s = map_option real_of_int (decimal_int s)"

definition family_medicine :: string where
  "family_medicine = ''207Q00000X''"

definition twice_family_medicine :: sqlval where
  \<open>twice_family_medicine = SText ''["207Q00000X", "207Q00000X"]''\<close>

definition sample_json_each :: "sqlval \<Rightarrow> db_error + sqlval list" where
  "sample_json_each v =
     (if v = SNull then Inr []
      else if v = twice_family_medicine then Inr [SText family_medicine, SText family_medicine]
      else Inl Malformed_json)"

definition sample_env :: "provider list \<Rightarrow> environment" where
  "sample_env table =
     \<lparr>py_float = decimal_float, py_int = decimal_int,
      sqlite_json_each = sample_json_each, stored = Some table\<rparr>"

definition provider_at :: "string \<Rightarrow> sqlval \<Rightarrow> sqlval \<Rightarrow> sqlval \<Rightarrow> provider" where
  "provider_at npi la lo codes =
     \<lparr>p_NPI = SText npi, p_Name = SText ''Clinic'', p_Address = SNull, p_City = SNull,
      p_State = SNull, p_PostalCode = SNull, p_latitude = la, p_longitude = lo,
      p_taxonomy = codes\<rparr>"

definition request_at_origin :: "string \<Rightarrow> int \<Rightarrow> search_request" where
  "request_at_origin code off =
     \<lparr>user_lat = 0, user_lon = 0, radius = 25, taxonomy = code, offset = off\<rparr>"


definition other_request :: search_request where
  "other_request =
     \<lparr>user_lat = 40, user_lon = - 75, radius = 10, taxonomy = ''101Y00000X'', offset = 20\<rparr>"


section \<open>What SQLite makes of the two statements\<close>

lemmas query_text_defs =
  count_query_def results_query_def base_query_def taxonomy_join_def where_clauses_def
  having_clauses_def haversine_formula_def

lemmas run_defs =
  execute_def check_select_def query_operands_def query_params_def RESULTS_PER_PAGE_def
  run_select_def from_rows_def where_rows_def group_rows_def with_distance_def having_rows_def
  order_rows_def limit_offset_def has_latitude_def radians_def and_then_def acos_def

lemmas sample_defs =
  sample_env_def provider_at_def request_at_origin_def decimal_float_def decimal_int_def
  digit_of_def family_medicine_def twice_family_medicine_def

text \<open>
  Without a taxonomy the results statement reads
  \<^verbatim>\<open>SELECT .. FROM providers p GROUP BY p.NPI WHERE .. HAVING .. ORDER BY .. LIMIT .. OFFSET ..\<close>:
  the \<^verbatim>\<open>GROUP BY\<close> appended to \<^verbatim>\<open>base_query\<close> stands before the \<^verbatim>\<open>WHERE\<close>. With a
  taxonomy it has a \<^verbatim>\<open>HAVING\<close> and no \<^verbatim>\<open>GROUP BY\<close>. The count statement has its
  \<^verbatim>\<open>GROUP BY\<close> in the right place, and lacks it with a taxonomy.
\<close>

lemma prepare_results_query:
  "prepare (results_query r) =
     Some (if taxonomy r = [] then Syntax_error ''WHERE'' else Having_non_aggregate)"
  by (simp add: query_text_defs check_select_def)

lemma prepare_count_query:
  "prepare (count_query r) = (if taxonomy r = [] then None else Some Having_non_aggregate)"
  by (simp add: query_text_defs check_select_def)

lemma results_query_refused:
  "execute je table (results_query r) ps =
     Inl (Sqlite_error (if taxonomy r = [] then Syntax_error ''WHERE'' else Having_non_aggregate))"
  by (simp add: execute_def prepare_results_query)

lemma count_query_refused:
  "taxonomy r \<noteq> [] \<Longrightarrow>
   execute je table (count_query r) ps = Inl (Sqlite_error Having_non_aggregate)"
  by (simp add: execute_def prepare_count_query)

lemma run_queries_taxonomy:
  "taxonomy r \<noteq> [] \<Longrightarrow>
   run_queries env table r = (Inl (Sqlite_error Having_non_aggregate), [Execute (count_query r)])"
  by (simp add: run_queries_def count_query_refused)

lemma run_queries_counted:
  assumes "taxonomy r = []"
    and "execute (sqlite_json_each env) table (count_query r) (query_params r) = Inr [Count_row n]"
  shows "run_queries env table r =
     (Inl (Sqlite_error (Syntax_error ''WHERE'')),
      [Execute (count_query r), Execute (results_query r)])"
  using assms by (simp add: run_queries_def results_query_refused fetchone_0_def)

lemma run_queries_fails: "\<exists>e events. run_queries env table r = (Inl e, events)"
  by (simp add: run_queries_def results_query_refused split: sum.splits)

lemma run_queries_events:
  "set (snd (run_queries env table r)) \<subseteq> {Execute (count_query r), Execute (results_query r)}"
  by (simp add: run_queries_def split: sum.splits)

lemma error_response_500: "\<exists>msg. error_response e = Response 500 (Error_details msg e)"
  by (cases e) simp_all

lemma search_providers_trace:
  assumes "parse_args env args = Some r" and "stored env = Some table"
  shows "snd (search_providers env args) = Acquire # snd (run_queries env table r) @ [Release]"
  using assms
  by (cases "run_queries env table r") (simp add: search_providers_def split: sum.splits)

lemma search_providers_failure:
  assumes "parse_args env args = Some r" and "stored env = Some table"
    and "fst (run_queries env table r) = Inl e"
  shows "fst (search_providers env args) = error_response e"
  using assms by (cases "run_queries env table r") (simp add: search_providers_def)

lemma search_providers_page_free: "fst (search_providers env args) \<noteq> Response 200 b"
proof (cases "parse_args env args")
  case None
  then show ?thesis by (simp add: search_providers_def)
next
  case (Some r)
  show ?thesis
  proof (cases "stored env")
    case None
    with Some show ?thesis by (simp add: search_providers_def)
  next
    case (Some table)
    obtain e events where "run_queries env table r = (Inl e, events)"
      using run_queries_fails by blast
    moreover obtain msg where "error_response e = Response 500 (Error_details msg e)"
      using error_response_500 by blast
    ultimately show ?thesis
      using \<open>parse_args env args = Some r\<close> Some by (simp add: search_providers_def)
  qed
qed

text \<open>Every request whose parameters parse is answered with status 500 once the
  connection is open.\<close>

lemma parsed_request_gets_500:
  assumes "parse_args env args = Some r" and "stored env = Some table"
  shows "\<exists>msg e. fst (search_providers env args) = Response 500 (Error_details msg e)"
proof -
  obtain e events where "run_queries env table r = (Inl e, events)"
    using run_queries_fails by blast
  then have "fst (search_providers env args) = error_response e"
    using search_providers_failure [OF assms] by simp
  then show ?thesis
    using error_response_500 [of e] by auto
qed

subsection \<open>The sample requests\<close>

lemma parse_origin:
  "parse_args (sample_env table) [''lat'' \<mapsto> ''0'', ''lon'' \<mapsto> ''0'']
     = Some (request_at_origin [] 0)"
  by (simp add: parse_args_def float_arg_def int_arg_def sample_defs)

lemma parse_origin_taxonomy:
  "parse_args (sample_env table)
     [''lat'' \<mapsto> ''0'', ''lon'' \<mapsto> ''0'', ''taxonomy'' \<mapsto> family_medicine]
     = Some (request_at_origin family_medicine 0)"
  by (simp add: parse_args_def float_arg_def int_arg_def sample_defs)

lemma parse_second_page:
  "parse_args (sample_env table) [''lat'' \<mapsto> ''0'', ''lon'' \<mapsto> ''0'', ''offset'' \<mapsto> ''20'']
     = Some (request_at_origin [] 20)"
  by (simp add: parse_args_def float_arg_def int_arg_def sample_defs)

text \<open>The count statement does run when no taxonomy is given.\<close>

lemma count_at_origin:
  "execute je [provider_at npi (SReal 0) (SReal 0) codes] (count_query (request_at_origin [] off))
     (query_params (request_at_origin [] off)) = Inr [Count_row 1]"
  by (simp add: query_text_defs run_defs sample_defs)

lemma count_empty_table:
  "execute je [] (count_query (request_at_origin [] off)) (query_params (request_at_origin [] off))
     = Inr [Count_row 0]"
  by (simp add: query_text_defs run_defs sample_defs)

subsection \<open>The clauses of the taxonomy statements\<close>

text \<open>
  SQLite never runs the statements built for a taxonomy, since it refuses them. Their
  clauses, run as they are written, have no grouping after the join: a provider whose
  list holds the code twice would come out of the results statement twice and be
  counted twice.
\<close>

lemma taxonomy_join_would_duplicate:
  "run_select sample_json_each (query_params (request_at_origin family_medicine 0))
     [provider_at ''1234567893'' (SReal 0) (SReal 0) twice_family_medicine]
     (query_tokens (results_query (request_at_origin family_medicine 0)))
   = Inr [Full_row (provider_at ''1234567893'' (SReal 0) (SReal 0) twice_family_medicine) 0,
          Full_row (provider_at ''1234567893'' (SReal 0) (SReal 0) twice_family_medicine) 0]"
  by (simp add: query_text_defs run_defs sample_defs sample_json_each_def join_rows_def
        sql_eq_def)

lemma taxonomy_count_would_duplicate:
  "run_select sample_json_each (query_params (request_at_origin family_medicine 0))
     [provider_at ''1234567893'' (SReal 0) (SReal 0) twice_family_medicine]
     (query_tokens (count_query (request_at_origin family_medicine 0)))
   = Inr [Npi_row (SText ''1234567893'') 0, Npi_row (SText ''1234567893'') 0]"
  by (simp add: query_text_defs run_defs sample_defs sample_json_each_def join_rows_def
        sql_eq_def)

subsection \<open>The clauses of the results statement\<close>


lemma execute_select_rows:
  "execute je table (Select ts) ps = Inr rows \<Longrightarrow> run_select je ps table ts = Inr rows"
  by (simp add: execute_def split: option.splits sum.splits)




section \<open>The claims\<close>

subsection \<open>Category filter\<close>

text \<open>
  C1. With an empty taxonomy the results query is to succeed and to return every located
  provider within the radius exactly once, also a provider whose stored list repeats a
  code. The view does not do this: for \<^verbatim>\<open>lat=0&lon=0\<close> and a table with one
  provider at the query point whose list holds the same code twice, the count statement
  counts the provider once, the results statement is refused by the parser at its
  \<^verbatim>\<open>WHERE\<close>, and the answer is status 500 with no result.
\<close>

theorem search_all_categories_fails:
  "search_providers
     (sample_env [provider_at ''1234567893'' (SReal 0) (SReal 0) twice_family_medicine])
     [''lat'' \<mapsto> ''0'', ''lon'' \<mapsto> ''0''] =
   (Response 500
      (Error_details ''A database error occurred.'' (Sqlite_error (Syntax_error ''WHERE''))),
    [Acquire, Execute (count_query (request_at_origin [] 0)),
     Execute (results_query (request_at_origin [] 0)), Release])"
proof -
  let ?table = "[provider_at ''1234567893'' (SReal 0) (SReal 0) twice_family_medicine]"
  have "taxonomy (request_at_origin [] 0) = []"
    by (simp add: request_at_origin_def)
  then have "run_queries (sample_env ?table) ?table (request_at_origin [] 0) =
     (Inl (Sqlite_error (Syntax_error ''WHERE'')),
      [Execute (count_query (request_at_origin [] 0)),
       Execute (results_query (request_at_origin [] 0))])"
    using count_at_origin by (rule run_queries_counted)
  then show ?thesis
    by (simp add: search_providers_def parse_origin) (simp add: sample_env_def)
qed

text \<open>
  C2. With a taxonomy code a provider is to be returned iff its list holds the code and
  it lies within the radius, once per provider. The view does not do this: for
  \<^verbatim>\<open>lat=0&lon=0&taxonomy=207Q00000X\<close> and a provider at the query point whose list
  holds that code, the count statement, which carries a \<^verbatim>\<open>HAVING\<close> clause without a
  \<^verbatim>\<open>GROUP BY\<close>, is refused, and the answer is status 500 with no result; the results
  statement is not reached.
\<close>

theorem search_by_taxonomy_fails:
  "search_providers
     (sample_env [provider_at ''1234567893'' (SReal 0) (SReal 0) twice_family_medicine])
     [''lat'' \<mapsto> ''0'', ''lon'' \<mapsto> ''0'', ''taxonomy'' \<mapsto> family_medicine] =
   (Response 500
      (Error_details ''A database error occurred.'' (Sqlite_error Having_non_aggregate)),
    [Acquire, Execute (count_query (request_at_origin family_medicine 0)), Release])"
proof -
  let ?table = "[provider_at ''1234567893'' (SReal 0) (SReal 0) twice_family_medicine]"
  have "taxonomy (request_at_origin family_medicine 0) \<noteq> []"
    by (simp add: request_at_origin_def family_medicine_def)
  then have "run_queries (sample_env ?table) ?table (request_at_origin family_medicine 0) =
     (Inl (Sqlite_error Having_non_aggregate),
      [Execute (count_query (request_at_origin family_medicine 0))])"
    by (rule run_queries_taxonomy)
  then show ?thesis
    by (simp add: search_providers_def parse_origin_taxonomy) (simp add: sample_env_def)
qed

subsection \<open>Count and pages\<close>

text \<open>
  C3. The \<^verbatim>\<open>total\<close> of the response is to be the number of matching providers, the
  same on every page. No response of the view carries a total: whatever the request and
  the table, the answer is never the body \<^verbatim>\<open>{results, total, offset, limit}\<close>.
\<close>

theorem response_never_reports_total:
  "fst (search_providers env args) \<noteq> Response 200 (Page rows n off per_page)"
  by (rule search_providers_page_free)

text \<open>
  C9. A valid request is to be answered with the page, the total, the offset echoed and
  the limit 20, the page skipping the first \<^verbatim>\<open>offset\<close> matches. The view does not do
  this: the request for the second page, \<^verbatim>\<open>lat=0&lon=0&offset=20\<close>, is answered with
  status 500.
\<close>

theorem second_page_search_fails:
  "search_providers
     (sample_env [provider_at ''1234567893'' (SReal 0) (SReal 0) twice_family_medicine])
     [''lat'' \<mapsto> ''0'', ''lon'' \<mapsto> ''0'', ''offset'' \<mapsto> ''20''] =
   (Response 500
      (Error_details ''A database error occurred.'' (Sqlite_error (Syntax_error ''WHERE''))),
    [Acquire, Execute (count_query (request_at_origin [] 20)),
     Execute (results_query (request_at_origin [] 20)), Release])"
proof -
  let ?table = "[provider_at ''1234567893'' (SReal 0) (SReal 0) twice_family_medicine]"
  have "taxonomy (request_at_origin [] 20) = []"
    by (simp add: request_at_origin_def)
  then have "run_queries (sample_env ?table) ?table (request_at_origin [] 20) =
     (Inl (Sqlite_error (Syntax_error ''WHERE'')),
      [Execute (count_query (request_at_origin [] 20)),
       Execute (results_query (request_at_origin [] 20))])"
    using count_at_origin by (rule run_queries_counted)
  then show ?thesis
    by (simp add: search_providers_def parse_second_page) (simp add: sample_env_def)
qed

subsection \<open>Coordinates and distance\<close>

text \<open>
  C4. A row whose latitude or longitude is null or empty is to be excluded before the
  distance is computed. The \<^verbatim>\<open>WHERE\<close> clause tests the latitude only: a row with a
  latitude and a NULL longitude passes it, \<^verbatim>\<open>radians\<close> is called on the NULL and the
  count statement fails with the exception of the user-defined function, whereas a row
  with a NULL latitude is left out and the statement counts zero.
\<close>

theorem missing_longitude_reaches_distance:
  "has_latitude (provider_at ''1234567893'' (SReal 40) SNull SNull) \<and>
   execute je [provider_at ''1234567893'' (SReal 40) SNull SNull]
     (count_query (request_at_origin [] 0)) (query_params (request_at_origin [] 0))
     = Inl (Sqlite_error Udf_exception) \<and>
   execute je [provider_at ''1234567893'' SNull (SReal 40) SNull]
     (count_query (request_at_origin [] 0)) (query_params (request_at_origin [] 0))
     = Inr [Count_row 0]"
  by (simp add: query_text_defs run_defs sample_defs)





subsection \<open>Malformed parameters\<close>

text \<open>
  C7, as amended. If \<^verbatim>\<open>lat\<close> or \<^verbatim>\<open>lon\<close> is missing or does not parse as a number,
  or \<^verbatim>\<open>radius\<close> is given and does not parse as a number, or \<^verbatim>\<open>offset\<close> is given and
  does not parse as an integer, the view answers with status 400 and an error message,
  and does nothing on the database: no connection is opened, no statement executed.
\<close>

theorem malformed_request_is_client_error:
  assumes "args ''lat'' = None \<or> (\<exists>s. args ''lat'' = Some s \<and> py_float env s = None)
         \<or> args ''lon'' = None \<or> (\<exists>s. args ''lon'' = Some s \<and> py_float env s = None)
         \<or> (\<exists>s. args ''radius'' = Some s \<and> py_float env s = None)
         \<or> (\<exists>s. args ''offset'' = Some s \<and> py_int env s = None)"
  shows "search_providers env args = (Response 400 (Error_body invalid_parameters), [])"
proof -
  have "parse_args env args = None"
    using assms
    by (auto simp add: parse_args_def float_arg_def int_arg_def Option.bind_eq_None_conv
             split: option.splits)
  then show ?thesis by (simp add: search_providers_def)
qed

text \<open>The request \<^verbatim>\<open>lat=abc&lon=-75\<close>.\<close>

theorem malformed_request_is_client_error_witness:
  "(\<exists>s. [''lat'' \<mapsto> ''abc'', ''lon'' \<mapsto> ''-75''] ''lat'' = Some s
        \<and> py_float (sample_env []) s = None) \<and>
   search_providers (sample_env []) [''lat'' \<mapsto> ''abc'', ''lon'' \<mapsto> ''-75'']
     = (Response 400 (Error_body invalid_parameters), [])"
proof -
  have h: "\<exists>s. [''lat'' \<mapsto> ''abc'', ''lon'' \<mapsto> ''-75''] ''lat'' = Some s
              \<and> py_float (sample_env []) s = None"
    by (simp add: sample_defs)
  then show ?thesis
    using malformed_request_is_client_error
            [of "[''lat'' \<mapsto> ''abc'', ''lon'' \<mapsto> ''-75'']" "sample_env []"]
    by blast
qed

text \<open>
  C7 as it is written also asks for status 400 when \<^verbatim>\<open>radius\<close> is missing. A missing
  radius is 25: the request \<^verbatim>\<open>lat=0&lon=0\<close> is taken, the connection is opened and
  both statements are executed.
\<close>

theorem missing_radius_is_not_client_error:
  "[''lat'' \<mapsto> ''0'', ''lon'' \<mapsto> ''0''] ''radius'' = None \<and>
   parse_args (sample_env []) [''lat'' \<mapsto> ''0'', ''lon'' \<mapsto> ''0'']
     = Some \<lparr>user_lat = 0, user_lon = 0, radius = 25, taxonomy = [], offset = 0\<rparr> \<and>
   search_providers (sample_env []) [''lat'' \<mapsto> ''0'', ''lon'' \<mapsto> ''0''] =
   (Response 500
      (Error_details ''A database error occurred.'' (Sqlite_error (Syntax_error ''WHERE''))),
    [Acquire, Execute (count_query (request_at_origin [] 0)),
     Execute (results_query (request_at_origin [] 0)), Release])"
proof -
  have "taxonomy (request_at_origin [] 0) = []"
    by (simp add: request_at_origin_def)
  moreover have "execute (sqlite_json_each (sample_env [])) [] (count_query (request_at_origin [] 0))
      (query_params (request_at_origin [] 0)) = Inr [Count_row 0]"
    by (rule count_empty_table)
  ultimately have "run_queries (sample_env []) [] (request_at_origin [] 0) =
     (Inl (Sqlite_error (Syntax_error ''WHERE'')),
      [Execute (count_query (request_at_origin [] 0)),
       Execute (results_query (request_at_origin [] 0))])"
    by (rule run_queries_counted)
  moreover have "parse_args (sample_env []) [''lat'' \<mapsto> ''0'', ''lon'' \<mapsto> ''0'']
     = Some \<lparr>user_lat = 0, user_lon = 0, radius = 25, taxonomy = [], offset = 0\<rparr>"
    using parse_origin [of "[]"] by (simp add: request_at_origin_def)
  ultimately show ?thesis
    by (simp add: search_providers_def parse_origin) (simp add: sample_env_def)
qed

subsection \<open>Database failures and the connection\<close>

text \<open>
  C8. For a request whose parameters parse, so that the connection is opened: the trace
  is the acquisition, then only executions of the two statements, then the release, on
  every path; and if the count statement or the results statement raises a database
  error, the answer is status 500 with the generic message and the error as detail, not
  a result page.
\<close>

theorem database_failure_is_server_error:
  assumes "parse_args env args = Some r" and "stored env = Some table"
  shows "(\<exists>events. snd (search_providers env args) = Acquire # events @ [Release]
            \<and> set events \<subseteq> {Execute (count_query r), Execute (results_query r)})
       \<and> (\<forall>d. (execute (sqlite_json_each env) table (count_query r) (query_params r)
                  = Inl (Sqlite_error d)
               \<or> (\<exists>rows n.
                     execute (sqlite_json_each env) table (count_query r) (query_params r)
                       = Inr rows
                     \<and> fetchone_0 rows = Inr n
                     \<and> execute (sqlite_json_each env) table (results_query r) (query_params r)
                         = Inl (Sqlite_error d)))
            \<longrightarrow> fst (search_providers env args)
                  = Response 500
                      (Error_details ''A database error occurred.'' (Sqlite_error d)))"
proof (intro conjI allI impI)
  show "\<exists>events. snd (search_providers env args) = Acquire # events @ [Release]
            \<and> set events \<subseteq> {Execute (count_query r), Execute (results_query r)}"
    using search_providers_trace [OF assms] run_queries_events [of env table r] by simp
next
  fix d
  assume "execute (sqlite_json_each env) table (count_query r) (query_params r)
                  = Inl (Sqlite_error d)
               \<or> (\<exists>rows n.
                     execute (sqlite_json_each env) table (count_query r) (query_params r)
                       = Inr rows
                     \<and> fetchone_0 rows = Inr n
                     \<and> execute (sqlite_json_each env) table (results_query r) (query_params r)
                         = Inl (Sqlite_error d))"
  then have "fst (run_queries env table r) = Inl (Sqlite_error d)"
    by (auto simp add: run_queries_def)
  then show "fst (search_providers env args)
                  = Response 500
                      (Error_details ''A database error occurred.'' (Sqlite_error d))"
    using search_providers_failure [OF assms] by simp
qed

text \<open>The request \<^verbatim>\<open>lat=0&lon=0&taxonomy=207Q00000X\<close>, whose count statement fails.\<close>

theorem database_failure_is_server_error_witness:
  "parse_args
      (sample_env [provider_at ''1234567893'' (SReal 0) (SReal 0) twice_family_medicine])
      [''lat'' \<mapsto> ''0'', ''lon'' \<mapsto> ''0'', ''taxonomy'' \<mapsto> family_medicine]
      = Some (request_at_origin family_medicine 0)
   \<and> stored (sample_env [provider_at ''1234567893'' (SReal 0) (SReal 0) twice_family_medicine])
      = Some [provider_at ''1234567893'' (SReal 0) (SReal 0) twice_family_medicine]
   \<and> execute sample_json_each
        [provider_at ''1234567893'' (SReal 0) (SReal 0) twice_family_medicine]
        (count_query (request_at_origin family_medicine 0))
        (query_params (request_at_origin family_medicine 0))
      = Inl (Sqlite_error Having_non_aggregate)
   \<and> fst (search_providers
        (sample_env [provider_at ''1234567893'' (SReal 0) (SReal 0) twice_family_medicine])
        [''lat'' \<mapsto> ''0'', ''lon'' \<mapsto> ''0'', ''taxonomy'' \<mapsto> family_medicine])
      = Response 500
          (Error_details ''A database error occurred.'' (Sqlite_error Having_non_aggregate))
   \<and> (\<exists>events. snd (search_providers
        (sample_env [provider_at ''1234567893'' (SReal 0) (SReal 0) twice_family_medicine])
        [''lat'' \<mapsto> ''0'', ''lon'' \<mapsto> ''0'', ''taxonomy'' \<mapsto> family_medicine])
      = Acquire # events @ [Release])"
proof -
  let ?table = "[provider_at ''1234567893'' (SReal 0) (SReal 0) twice_family_medicine]"
  let ?r = "request_at_origin family_medicine 0"
  have p: "parse_args (sample_env ?table)
      [''lat'' \<mapsto> ''0'', ''lon'' \<mapsto> ''0'', ''taxonomy'' \<mapsto> family_medicine] = Some ?r"
    by (rule parse_origin_taxonomy)
  have s: "stored (sample_env ?table) = Some ?table"
    by (simp add: sample_env_def)
  have "taxonomy ?r \<noteq> []"
    by (simp add: request_at_origin_def family_medicine_def)
  then have x: "execute sample_json_each ?table (count_query ?r) (query_params ?r)
      = Inl (Sqlite_error Having_non_aggregate)"
    by (rule count_query_refused)
  then have x': "execute (sqlite_json_each (sample_env ?table)) ?table (count_query ?r)
      (query_params ?r) = Inl (Sqlite_error Having_non_aggregate)"
    by (simp add: sample_env_def)
  from database_failure_is_server_error [OF p s] x' p s x show ?thesis
    by blast
qed

subsection \<open>The text of the statements and the values\<close>

text \<open>
  C10. The text of the count statement and of the results statement depends only on
  whether the taxonomy is empty: two requests that agree on that yield the same two
  texts. Every place of the two texts where a value enters is a named placeholder that
  \<^verbatim>\<open>query_params\<close> binds, and \<^verbatim>\<open>query_params\<close> binds the values of the request.
\<close>

theorem query_text_fixed_by_taxonomy_emptiness:
  assumes "(taxonomy r = []) = (taxonomy r' = [])"
  shows "count_query r = count_query r' \<and> results_query r = results_query r'
       \<and> (\<forall>x \<in> set (query_operands (count_query r) @ query_operands (results_query r)).
             \<exists>n. x = Named n \<and> n \<in> dom (query_params r))
       \<and> query_params r ''user_lat'' = Some (SReal (user_lat r))
       \<and> query_params r ''user_lon'' = Some (SReal (user_lon r))
       \<and> query_params r ''radius'' = Some (SReal (radius r))
       \<and> query_params r ''taxonomy'' = Some (SText (taxonomy r))
       \<and> query_params r ''offset'' = Some (SInt (offset r))"
proof -
  have "count_query r = count_query r'" "results_query r = results_query r'"
    using assms by (simp_all add: query_text_defs)
  moreover have "\<forall>x \<in> set (query_operands (count_query r) @ query_operands (results_query r)).
             \<exists>n. x = Named n \<and> n \<in> dom (query_params r)"
    by (simp add: query_text_defs query_operands_def query_params_def)
  moreover have "query_params r ''user_lat'' = Some (SReal (user_lat r))"
    "query_params r ''user_lon'' = Some (SReal (user_lon r))"
    "query_params r ''radius'' = Some (SReal (radius r))"
    "query_params r ''taxonomy'' = Some (SText (taxonomy r))"
    "query_params r ''offset'' = Some (SInt (offset r))"
    by (simp_all add: query_params_def)
  ultimately show ?thesis by blast
qed

text \<open>Two requests that differ in every parameter and both name a taxonomy.\<close>

theorem query_text_fixed_by_taxonomy_emptiness_witness:
  "(taxonomy (request_at_origin family_medicine 0) = []) = (taxonomy other_request = [])
   \<and> taxonomy (request_at_origin family_medicine 0) \<noteq> taxonomy other_request
   \<and> count_query (request_at_origin family_medicine 0) = count_query other_request
   \<and> results_query (request_at_origin family_medicine 0) = results_query other_request
   \<and> Named ''taxonomy''
       \<in> set (query_operands (count_query (request_at_origin family_medicine 0))
              @ query_operands (results_query (request_at_origin family_medicine 0)))
   \<and> ''taxonomy'' \<in> dom (query_params (request_at_origin family_medicine 0))"
proof -
  have h: "(taxonomy (request_at_origin family_medicine 0) = []) = (taxonomy other_request = [])"
    and d: "taxonomy (request_at_origin family_medicine 0) \<noteq> taxonomy other_request"
    by (simp_all add: request_at_origin_def other_request_def family_medicine_def)
  have m: "Named ''taxonomy''
       \<in> set (query_operands (count_query (request_at_origin family_medicine 0))
              @ query_operands (results_query (request_at_origin family_medicine 0)))"
    by (simp add: query_text_defs query_operands_def request_at_origin_def family_medicine_def)
  from query_text_fixed_by_taxonomy_emptiness [OF h] h d m show ?thesis
    by blast
qed

end
